theory Spec2Isabelle
  imports Complex_Main "HOL-Library.Char_ord" "HOL-Library.List_Lexorder"
begin

section \<open>Twitter media downloader: a shallow embedding of App.py\<close>

text \<open>
  The theory embeds the layers of \<^verbatim>\<open>App.py\<close> that carry logic: the helper
  \<^verbatim>\<open>sanitize_filename\<close>, the two adapter methods of
  \<^verbatim>\<open>HighQualityTwitterDownloader\<close> (\<^verbatim>\<open>download_video_max_quality\<close> and
  \<^verbatim>\<open>download_images_max_quality\<close>), the method \<^verbatim>\<open>download\<close> that sequences them, and
  the function \<^verbatim>\<open>download_twitter_media\<close> that calls \<^verbatim>\<open>download\<close> inside its own
  \<^verbatim>\<open>try\<close>. The two external tools (yt-dlp and gallery-dl) and the parts of the Python
  runtime and of the operating system that are not determined by the source are
  parameters, collected in the record \<open>env\<close>. Exceptions are values of the type \<open>exn\<close>;
  the file system and standard output are passed explicitly in the record \<open>world\<close>.
\<close>

subsection \<open>Filename sanitizer\<close>

text \<open>
  \<^verbatim>\<open>re.sub(r'[\\/*?:"<>|]', "", text)\<close>: the pattern is one character class, so every
  match is a single character. The scan goes left to right; a matching character is
  replaced by the replacement text, any other character is copied.
\<close>

fun re_sub_class :: "char list \<Rightarrow> string \<Rightarrow> string \<Rightarrow> string" where
  "re_sub_class cls repl [] = []"
| "re_sub_class cls repl (c # cs) =
     (if c \<in> set cls then repl @ re_sub_class cls repl cs
      else c # re_sub_class cls repl cs)"

text \<open>
  The members of the class \<^verbatim>\<open>[\\/*?:"<>|]\<close>: backslash (0x5C), slash, asterisk,
  question mark, colon, double quote (0x22), less-than, greater-than and vertical bar.
\<close>

definition illegal_chars :: "char list" where
  "illegal_chars =
     [CHR 0x5C, CHR ''/'', CHR ''*'', CHR ''?'', CHR '':'', CHR 0x22,
      CHR ''<'', CHR ''>'', CHR ''|'']"

definition sanitize_filename :: "string \<Rightarrow> string" where
  "sanitize_filename text = re_sub_class illegal_chars [] text"

subsection \<open>Python values, dictionaries and exceptions\<close>

text \<open>
  The values that occur in the metadata of the video tool and in the result dictionaries.
  A float is represented by the rational number it stands for: the model computes with
  exact rationals where Python computes with IEEE doubles.
\<close>

datatype pyval =
    PNone
  | PBool bool
  | PInt int
  | PFloat rat
  | PStr string
  | PList "pyval list"

type_synonym pydict = "string \<rightharpoonup> pyval"

text \<open>
  The instances of Python's \<^verbatim>\<open>Exception\<close> that the code can meet. \<open>KeyError k\<close> is raised
  by \<^verbatim>\<open>d[k]\<close> on a missing key, \<open>TypeError m\<close> by subscripting \<^verbatim>\<open>None\<close>,
  \<open>FileNotFoundError p\<close> by \<^verbatim>\<open>stat\<close> on a missing path; \<open>ToolError m\<close> is any exception
  with text \<open>m\<close> raised inside an external tool or while launching it (a download error, a
  missing executable, \<^verbatim>\<open>subprocess.TimeoutExpired\<close>). \<open>UnicodeEncodeError m\<close> is raised by
  \<^verbatim>\<open>print\<close> on a line that the encoding of standard output cannot represent,
  \<open>ValueError m\<close> by \<^verbatim>\<open>print\<close> on a closed stream, and \<open>OSError m\<close> by a failing write or
  by \<^verbatim>\<open>os.makedirs\<close>. All of them are caught by \<^verbatim>\<open>except Exception\<close>; interrupts of the
  interpreter (\<^verbatim>\<open>KeyboardInterrupt\<close>, \<^verbatim>\<open>SystemExit\<close>) are not behaviours of the tools and
  are not modelled.
\<close>

datatype exn =
    KeyError string
  | TypeError string
  | FileNotFoundError string
  | ToolError string
  | UnicodeEncodeError string
  | ValueError string
  | OSError string

text \<open>\<^verbatim>\<open>str(e)\<close>. The text of a \<^verbatim>\<open>KeyError\<close> is the \<^verbatim>\<open>repr\<close> of the key, in quotes.\<close>

fun exn_str :: "exn \<Rightarrow> string" where
  "exn_str (KeyError k) = [CHR 0x27] @ k @ [CHR 0x27]"
| "exn_str (TypeError m) = m"
| "exn_str (FileNotFoundError p) =
     ''[Errno 2] No such file or directory: '' @ [CHR 0x27] @ p @ [CHR 0x27]"
| "exn_str (ToolError m) = m"
| "exn_str (UnicodeEncodeError m) = m"
| "exn_str (ValueError m) = m"
| "exn_str (OSError m) = m"

text \<open>\<^verbatim>\<open>d[k]\<close> raises on a missing key; \<^verbatim>\<open>d.get(k)\<close> gives \<^verbatim>\<open>None\<close> instead.\<close>

definition getitem :: "pydict \<Rightarrow> string \<Rightarrow> exn + pyval" where
  "getitem d k = (case d k of None \<Rightarrow> Inl (KeyError k) | Some v \<Rightarrow> Inr v)"

definition dict_get :: "pydict \<Rightarrow> string \<Rightarrow> pyval" where
  "dict_get d k = (case d k of None \<Rightarrow> PNone | Some v \<Rightarrow> v)"

text \<open>Truth value of an object, as tested by \<^verbatim>\<open>if\<close> and by \<^verbatim>\<open>or\<close>.\<close>

fun truthy :: "pyval \<Rightarrow> bool" where
  "truthy PNone = False"
| "truthy (PBool b) = b"
| "truthy (PInt i) = (i \<noteq> 0)"
| "truthy (PFloat r) = (r \<noteq> 0)"
| "truthy (PStr s) = (s \<noteq> [])"
| "truthy (PList xs) = (xs \<noteq> [])"

text \<open>Decimal text of a natural number and of an integer.\<close>

fun str_nat :: "nat \<Rightarrow> string" where
  "str_nat n =
     (if n < 10 then [char_of (48 + n)]
      else str_nat (n div 10) @ [char_of (48 + n mod 10)])"

declare str_nat.simps [simp del]

definition str_int :: "int \<Rightarrow> string" where
  "str_int i = (if i < 0 then CHR ''-'' # str_nat (nat (- i)) else str_nat (nat i))"

subsection \<open>File system, standard output and the external tools\<close>

text \<open>
  The file system is a list of directory entries, each a path with the size that
  \<^verbatim>\<open>stat\<close> reports for it. A path is identified with its text, so the output folder is
  taken in the normal form that \<^verbatim>\<open>pathlib\<close> prints (as \<^verbatim>\<open>'downloads_hq'\<close> and
  \<^verbatim>\<open>'twitter_downloads'\<close> are). \<^verbatim>\<open>stat\<close> on a path that is not an entry raises.
\<close>

type_synonym filesystem = "(string \<times> nat) list"

definition path_exists :: "filesystem \<Rightarrow> string \<Rightarrow> bool" where
  "path_exists fs p = (map_of fs p \<noteq> None)"

definition st_size :: "filesystem \<Rightarrow> string \<Rightarrow> exn + nat" where
  "st_size fs p = (case map_of fs p of None \<Rightarrow> Inl (FileNotFoundError p) | Some n \<Rightarrow> Inr n)"

text \<open>
  An entry lies directly in a folder when its path is the folder, a slash and a non-empty
  name without a slash. \<^verbatim>\<open>Path(folder).glob('*')\<close> yields these entries.
\<close>

definition in_folder :: "string \<Rightarrow> string \<Rightarrow> bool" where
  "in_folder folder p =
     (let pre = folder @ ''/''; name = drop (length pre) p
      in take (length pre) p = pre \<and> name \<noteq> [] \<and> CHR ''/'' \<notin> set name)"

definition glob_star :: "string \<Rightarrow> filesystem \<Rightarrow> string list" where
  "glob_star folder fs = filter (in_folder folder) (map fst fs)"

text \<open>
  \<open>calls\<close> is an instrumentation field: each adapter appends one event when it is entered.
  It is never read by the program.
\<close>

datatype call = VideoAdapter string | ImageAdapter string

record world =
  filesys :: filesystem
  stdout :: "string list"
  calls :: "call list"

text \<open>The option dictionary handed to \<^verbatim>\<open>yt_dlp.YoutubeDL\<close>.\<close>

record ydl_opts =
  outtmpl :: string
  format :: string
  merge_output_format :: string
  postprocessor_args :: "string list"
  writethumbnail :: bool
  write_info_json :: bool
  quiet :: bool
  no_warnings :: bool

text \<open>What \<^verbatim>\<open>subprocess.run(..., capture_output=True, text=True)\<close> returns.\<close>

record completed_process =
  returncode :: int
  proc_stdout :: string
  proc_stderr :: string

text \<open>
  The collaborators outside the source.
  \<^item> \<open>make_ydl opts\<close> is the constructor \<^verbatim>\<open>yt_dlp.YoutubeDL(opts)\<close> entered by \<^verbatim>\<open>with\<close>: it
    raises (\<open>Some e\<close>) or yields the extractor object (\<open>None\<close>).
  \<^item> \<open>extract_info opts url fs\<close> is \<^verbatim>\<open>ydl.extract_info(url, download=True)\<close> on that object:
    it raises or returns the metadata dictionary (or \<^verbatim>\<open>None\<close>), and leaves a new file system.
  \<^item> \<open>subprocess_run cmd fs\<close> is \<^verbatim>\<open>subprocess.run(cmd, capture_output=True, text=True,
    timeout=120)\<close>: it raises (the executable is missing, the timeout expired) or returns the
    completed process, and leaves a new file system.
  \<^item> \<open>set_iter s\<close> is the order in which Python iterates over the set \<open>s\<close>.
  \<^item> \<open>str_other v\<close> is \<^verbatim>\<open>str(v)\<close> for a float or a list.
  \<^item> \<open>stdout_write written line\<close> is what the stream behind \<^verbatim>\<open>print\<close> does with \<open>line\<close>
    after the lines \<open>written\<close>: it accepts the line (\<open>None\<close>) or \<^verbatim>\<open>print\<close> raises
    (\<open>Some e\<close>), as it does for a line the stream's encoding cannot represent and for a
    closed stream.
  \<^item> \<open>makedirs path fs\<close> is \<^verbatim>\<open>os.makedirs(path, exist_ok=True)\<close>: it raises or not, and
    leaves a new file system.
\<close>

record env =
  make_ydl :: "ydl_opts \<Rightarrow> exn option"
  extract_info :: "ydl_opts \<Rightarrow> string \<Rightarrow> filesystem \<Rightarrow> (exn + pydict option) \<times> filesystem"
  subprocess_run :: "string list \<Rightarrow> filesystem \<Rightarrow> (exn + completed_process) \<times> filesystem"
  set_iter :: "string set \<Rightarrow> string list"
  str_other :: "pyval \<Rightarrow> string"
  stdout_write :: "string list \<Rightarrow> string \<Rightarrow> exn option"
  makedirs :: "string \<Rightarrow> filesystem \<Rightarrow> exn option \<times> filesystem"

text \<open>\<^verbatim>\<open>str(v)\<close>, which is also what an f-string writes for \<^verbatim>\<open>{v}\<close>.\<close>

fun py_str :: "env \<Rightarrow> pyval \<Rightarrow> string" where
  "py_str E PNone = ''None''"
| "py_str E (PBool b) = (if b then ''True'' else ''False'')"
| "py_str E (PInt i) = str_int i"
| "py_str E (PStr s) = s"
| "py_str E v = str_other E v"

subsection \<open>Rounding to two decimals\<close>

text \<open>
  \<^verbatim>\<open>round(x, 2)\<close> on a float rounds to the nearest multiple of 0.01, a tie going to the
  even multiple. On an \<^verbatim>\<open>int\<close> it returns the \<^verbatim>\<open>int\<close> unchanged.
\<close>

definition round_half_even :: "rat \<Rightarrow> int" where
  "round_half_even x =
     (let f = \<lfloor>x\<rfloor>; d = x - of_int f
      in if d < 1 / 2 then f
         else if 1 / 2 < d then f + 1
         else if even f then f else f + 1)"

definition round2 :: "rat \<Rightarrow> rat" where
  "round2 x = of_int (round_half_even (x * 100)) / 100"

fun py_round2 :: "pyval \<Rightarrow> pyval" where
  "py_round2 (PFloat r) = PFloat (round2 r)"
| "py_round2 v = v"

subsection \<open>The downloader class\<close>

record downloader =
  output_folder :: string
  verbose :: bool


text \<open>
  \<^verbatim>\<open>print(message)\<close>: the line is appended to standard output, or \<^verbatim>\<open>print\<close> raises and
  standard output is left as it was.
\<close>

definition py_print :: "env \<Rightarrow> string \<Rightarrow> world \<Rightarrow> exn + world" where
  "py_print E message w =
     (case stdout_write E (stdout w) message of
        Some e \<Rightarrow> Inl e
      | None \<Rightarrow> Inr (w\<lparr>stdout := stdout w @ [message]\<rparr>))"

text \<open>
  \<^verbatim>\<open>_print\<close>: print only if verbose mode is on or \<open>force\<close> is true. The method has no
  handler, so what \<^verbatim>\<open>print\<close> raises leaves it.
\<close>

definition print_msg :: "env \<Rightarrow> downloader \<Rightarrow> string \<Rightarrow> bool \<Rightarrow> world \<Rightarrow> exn + world" where
  "print_msg E self message force w =
     (if verbose self \<or> force then py_print E message w else Inr w)"

text \<open>The failure dictionary of both \<^verbatim>\<open>except Exception as e\<close> handlers.\<close>

definition failure :: "string \<Rightarrow> pydict" where
  "failure msg = [''success'' \<mapsto> PBool False, ''error'' \<mapsto> PStr msg]"

definition video_opts :: "downloader \<Rightarrow> ydl_opts" where
  "video_opts self =
     \<lparr> outtmpl = output_folder self @ ''/%(id)s_%(height)sp.%(ext)s'',
       format = ''bestvideo[ext=mp4][vcodec^=avc1]+bestaudio[ext=m4a]/''
                @ ''bestvideo[ext=mp4]+bestaudio[ext=m4a]/''
                @ ''bestvideo+bestaudio/''
                @ ''best'',
       merge_output_format = ''mp4'',
       postprocessor_args = [''-c:v'', ''copy'', ''-c:a'', ''copy''],
       writethumbnail = False,
       write_info_json = False,
       quiet = True,
       no_warnings = True \<rparr>"

text \<open>
  The body of the \<^verbatim>\<open>try\<close> block of \<^verbatim>\<open>download_video_max_quality\<close>, from the line that
  builds \<open>filename\<close>, given what \<^verbatim>\<open>extract_info\<close> returned. Subscripting \<^verbatim>\<open>None\<close> raises a
  \<^verbatim>\<open>TypeError\<close>, a missing \<^verbatim>\<open>'id'\<close> or \<^verbatim>\<open>'ext'\<close> a \<^verbatim>\<open>KeyError\<close>. The size is read from
  the file system when the file exists and is the integer 0 otherwise.
\<close>

definition video_filename :: "env \<Rightarrow> downloader \<Rightarrow> pydict \<Rightarrow> exn + string" where
  "video_filename E self info =
     (case getitem info ''id'' of
        Inl e \<Rightarrow> Inl e
      | Inr vid \<Rightarrow>
          (case getitem info ''ext'' of
             Inl e \<Rightarrow> Inl e
           | Inr ext \<Rightarrow>
               Inr (output_folder self @ ''/'' @ py_str E vid @ ''_''
                    @ py_str E (dict_get info ''height'') @ ''p.'' @ py_str E ext)))"

definition video_size_mb :: "filesystem \<Rightarrow> string \<Rightarrow> exn + pyval" where
  "video_size_mb fs filename =
     (if path_exists fs filename then
        (case st_size fs filename of
           Inl e \<Rightarrow> Inl e
         | Inr n \<Rightarrow> Inr (PFloat (of_nat n / (1024 * 1024))))
      else Inr (PInt 0))"

definition none_not_subscriptable :: string where
  "none_not_subscriptable =
     [CHR 0x27] @ ''NoneType'' @ [CHR 0x27] @ '' object is not subscriptable''"

definition video_body :: "env \<Rightarrow> downloader \<Rightarrow> filesystem \<Rightarrow> pydict option \<Rightarrow> exn + pydict" where
  "video_body E self fs r =
     (case r of
        None \<Rightarrow> Inl (TypeError none_not_subscriptable)
      | Some info \<Rightarrow>
          (case video_filename E self info of
             Inl e \<Rightarrow> Inl e
           | Inr filename \<Rightarrow>
               (case video_size_mb fs filename of
                  Inl e \<Rightarrow> Inl e
                | Inr size_mb \<Rightarrow>
                    Inr [''success'' \<mapsto> PBool True,
                         ''type'' \<mapsto> PStr ''video'',
                         ''resolution'' \<mapsto>
                            PStr (py_str E (dict_get info ''width'') @ ''x''
                                  @ py_str E (dict_get info ''height'')),
                         ''fps'' \<mapsto> dict_get info ''fps'',
                         ''size_mb'' \<mapsto> py_round2 size_mb,
                         ''filename'' \<mapsto> PStr filename])))"

text \<open>
  \<^verbatim>\<open>download_video_max_quality\<close>. Whatever is raised inside the \<^verbatim>\<open>try\<close> block, by the
  constructor, by the progress line or by the tool, is caught by
  \<^verbatim>\<open>except Exception as e\<close> and becomes the failure dictionary with \<^verbatim>\<open>str(e)\<close>.
\<close>

definition download_video_max_quality ::
  "env \<Rightarrow> downloader \<Rightarrow> string \<Rightarrow> world \<Rightarrow> pydict \<times> world" where
  "download_video_max_quality E self tweet_url w0 =
     (let w1 = w0\<lparr>calls := calls w0 @ [VideoAdapter tweet_url]\<rparr>
      in case make_ydl E (video_opts self) of
           Some e \<Rightarrow> (failure (exn_str e), w1)
         | None \<Rightarrow>
             (case print_msg E self ''  Downloading video...'' False w1 of
                Inl e \<Rightarrow> (failure (exn_str e), w1)
              | Inr w2 \<Rightarrow>
                  (let (r, fs') = extract_info E (video_opts self) tweet_url (filesys w2);
                       w3 = w2\<lparr>filesys := fs'\<rparr>
                   in case r of
                        Inl e \<Rightarrow> (failure (exn_str e), w3)
                      | Inr info \<Rightarrow>
                          (case video_body E self fs' info of
                             Inl e \<Rightarrow> (failure (exn_str e), w3)
                           | Inr d \<Rightarrow> (d, w3)))))"

text \<open>The command line of the image tool.\<close>

definition gallery_cmd :: "downloader \<Rightarrow> string \<Rightarrow> string list" where
  "gallery_cmd self tweet_url =
     [''gallery-dl'',
      ''--destination'', output_folder self,
      ''--filename'', ''{category}_{tweet_id}_{num}.{extension}'',
      ''--quiet'',
      tweet_url]"

text \<open>
  \<^verbatim>\<open>sum(f.stat().st_size for f in new_files)\<close>: the files are visited in iteration order and
  the first \<^verbatim>\<open>stat\<close> that raises ends the sum.
\<close>

fun sum_sizes :: "filesystem \<Rightarrow> string list \<Rightarrow> exn + nat" where
  "sum_sizes fs [] = Inr 0"
| "sum_sizes fs (f # rest) =
     (case st_size fs f of
        Inl e \<Rightarrow> Inl e
      | Inr n \<Rightarrow> (case sum_sizes fs rest of Inl e \<Rightarrow> Inl e | Inr m \<Rightarrow> Inr (n + m)))"

text \<open>
  The \<^verbatim>\<open>if\<close>/\<^verbatim>\<open>else\<close> at the end of the \<^verbatim>\<open>try\<close> block of \<^verbatim>\<open>download_images_max_quality\<close>,
  given the set \<open>new_files\<close> and the completed process. \<^verbatim>\<open>result.stderr or 'No images found'\<close>
  is the standard-error text unless that text is empty.
\<close>

definition images_body ::
  "env \<Rightarrow> filesystem \<Rightarrow> string set \<Rightarrow> completed_process \<Rightarrow> exn + pydict" where
  "images_body E fs new_files result =
     (if returncode result = 0 \<and> new_files \<noteq> {} then
        (case sum_sizes fs (set_iter E new_files) of
           Inl e \<Rightarrow> Inl e
         | Inr total_size \<Rightarrow>
             Inr [''success'' \<mapsto> PBool True,
                  ''type'' \<mapsto> PStr ''images'',
                  ''count'' \<mapsto> PInt (int (card new_files)),
                  ''size_mb'' \<mapsto> py_round2 (PFloat (of_nat total_size / (1024 * 1024))),
                  ''files'' \<mapsto> PList (map PStr (set_iter E new_files))])
      else
        Inr (failure (if proc_stderr result \<noteq> [] then proc_stderr result
                      else ''No images found'')))"

text \<open>
  \<^verbatim>\<open>download_images_max_quality\<close>: the listing of the output folder is taken before and
  after the subprocess, and the difference of the two sets is \<open>new_files\<close>. The whole body
  is inside the \<^verbatim>\<open>try\<close>: when the progress line raises, the tool is not run and the
  result is the failure dictionary with the text of that exception.
\<close>

definition download_images_max_quality ::
  "env \<Rightarrow> downloader \<Rightarrow> string \<Rightarrow> world \<Rightarrow> pydict \<times> world" where
  "download_images_max_quality E self tweet_url w0 =
     (let w1 = w0\<lparr>calls := calls w0 @ [ImageAdapter tweet_url]\<rparr>;
          cmd = gallery_cmd self tweet_url
      in case print_msg E self ''  Downloading images...'' False w1 of
           Inl e \<Rightarrow> (failure (exn_str e), w1)
         | Inr w2 \<Rightarrow>
             (let before = set (glob_star (output_folder self) (filesys w2));
                  (r, fs') = subprocess_run E cmd (filesys w2);
                  w3 = w2\<lparr>filesys := fs'\<rparr>
              in case r of
                   Inl e \<Rightarrow> (failure (exn_str e), w3)
                 | Inr result \<Rightarrow>
                     (let after = set (glob_star (output_folder self) fs');
                          new_files = after - before
                      in case images_body E fs' new_files result of
                           Inl e \<Rightarrow> (failure (exn_str e), w3)
                         | Inr d \<Rightarrow> (d, w3))))"

text \<open>
  \<^verbatim>\<open>download\<close>: the banner, then video first, then images. The banner is always printed
  (\<open>force\<close> is true exactly when verbose mode is off). The method has no handler of its
  own: what \<^verbatim>\<open>print\<close> raises on the banner leaves it, before either adapter is entered,
  and so would a \<^verbatim>\<open>KeyError\<close> from \<^verbatim>\<open>video_result['success']\<close> or
  \<^verbatim>\<open>image_result['success']\<close>; the result is therefore a sum.
\<close>

definition download ::
  "env \<Rightarrow> downloader \<Rightarrow> string \<Rightarrow> world \<Rightarrow> (exn + pydict) \<times> world" where
  "download E self tweet_url w0 =
     (case print_msg E self ([CHR 0x0A] @ ''Downloading: '' @ tweet_url) (\<not> verbose self) w0 of
        Inl e \<Rightarrow> (Inl e, w0)
      | Inr w1 \<Rightarrow>
          (let (video_result, w2) = download_video_max_quality E self tweet_url w1
           in case getitem video_result ''success'' of
                Inl e \<Rightarrow> (Inl e, w2)
              | Inr vsucc \<Rightarrow>
                  if truthy vsucc then (Inr (video_result(''url'' \<mapsto> PStr tweet_url)), w2)
                  else
                    (let (image_result, w3) = download_images_max_quality E self tweet_url w2
                     in case getitem image_result ''success'' of
                          Inl e \<Rightarrow> (Inl e, w3)
                        | Inr isucc \<Rightarrow>
                            if truthy isucc
                            then (Inr (image_result(''url'' \<mapsto> PStr tweet_url)), w3)
                            else (Inr image_result, w3))))"

subsection \<open>The caller of the downloader\<close>




subsection \<open>Specification vocabulary\<close>

text \<open>
  Iterating over a Python set visits each of its elements once. The order is not
  specified, so the properties below hold for every \<open>set_iter\<close> with this property.
\<close>

definition lawful_set_iter :: "env \<Rightarrow> bool" where
  "lawful_set_iter E = (\<forall>S. finite S \<longrightarrow> set (set_iter E S) = S \<and> distinct (set_iter E S))"

text \<open>The size recorded on disk for a path (0 for a path that does not exist).\<close>

definition size_on_disk :: "filesystem \<Rightarrow> string \<Rightarrow> nat" where
  "size_on_disk fs p = (case map_of fs p of None \<Rightarrow> 0 | Some n \<Rightarrow> n)"

text \<open>A Python number that is not negative.\<close>

definition nonneg_number :: "pyval \<Rightarrow> bool" where
  "nonneg_number v = (case v of PInt i \<Rightarrow> 0 \<le> i | PFloat r \<Rightarrow> 0 \<le> r | _ \<Rightarrow> False)"

subsection \<open>Example runs\<close>

text \<open>
  Concrete tools and a concrete file system on which the properties are instantiated:
  a post with a video, a post with two images (the image tool also rewrites a file that
  was there before), a post with nothing to fetch, and an image tool that times out.
  The downloader is the one built by \<^verbatim>\<open>download_twitter_media\<close>. In \<open>demo_env\<close> standard
  output accepts every line, the output folder can be created, and a set of paths is
  iterated in ascending order.
\<close>

definition demo_downloader :: downloader where
  "demo_downloader = \<lparr> output_folder = ''twitter_downloads'', verbose = False \<rparr>"

definition demo_verbose :: downloader where
  "demo_verbose = \<lparr> output_folder = ''twitter_downloads'', verbose = True \<rparr>"

definition demo_world :: world where
  "demo_world =
     \<lparr> filesys = [(''twitter_downloads/old.jpg'', 2048)], stdout = [], calls = [] \<rparr>"

definition demo_info :: pydict where
  "demo_info =
     [''id'' \<mapsto> PStr ''42'', ''ext'' \<mapsto> PStr ''mp4'', ''width'' \<mapsto> PInt 1280,
      ''height'' \<mapsto> PInt 720, ''fps'' \<mapsto> PInt 30]"

definition demo_env ::
  "(ydl_opts \<Rightarrow> string \<Rightarrow> filesystem \<Rightarrow> (exn + pydict option) \<times> filesystem) \<Rightarrow>
   (string list \<Rightarrow> filesystem \<Rightarrow> (exn + completed_process) \<times> filesystem) \<Rightarrow> env" where
  "demo_env yt gd =
     \<lparr> make_ydl = (\<lambda>opts. None), extract_info = yt, subprocess_run = gd,
       set_iter = sorted_list_of_set, str_other = (\<lambda>v. []),
       stdout_write = (\<lambda>written line. None), makedirs = (\<lambda>path fs. (None, fs)) \<rparr>"

definition yt_video :: "ydl_opts \<Rightarrow> string \<Rightarrow> filesystem \<Rightarrow> (exn + pydict option) \<times> filesystem" where
  "yt_video opts url fs = (Inr (Some demo_info), fs @ [(''twitter_downloads/42_720p.mp4'', 3145728)])"

definition yt_no_video :: "ydl_opts \<Rightarrow> string \<Rightarrow> filesystem \<Rightarrow> (exn + pydict option) \<times> filesystem" where
  "yt_no_video opts url fs = (Inl (ToolError ''No video could be found in this tweet''), fs)"

definition gd_two_images :: "string list \<Rightarrow> filesystem \<Rightarrow> (exn + completed_process) \<times> filesystem" where
  "gd_two_images cmd fs =
     (Inr \<lparr> returncode = 0, proc_stdout = [], proc_stderr = [] \<rparr>,
      [(''twitter_downloads/old.jpg'', 4096),
       (''twitter_downloads/twitter_7_1.jpg'', 1048576),
       (''twitter_downloads/twitter_7_2.jpg'', 524288)])"

definition gd_warning :: "string list \<Rightarrow> filesystem \<Rightarrow> (exn + completed_process) \<times> filesystem" where
  "gd_warning cmd fs =
     (Inr \<lparr> returncode = 0, proc_stdout = [],
           proc_stderr = ''[twitter][warning] No results'' \<rparr>, fs)"

definition gd_silent :: "string list \<Rightarrow> filesystem \<Rightarrow> (exn + completed_process) \<times> filesystem" where
  "gd_silent cmd fs = (Inr \<lparr> returncode = 0, proc_stdout = [], proc_stderr = [] \<rparr>, fs)"

definition gd_timeout :: "string list \<Rightarrow> filesystem \<Rightarrow> (exn + completed_process) \<times> filesystem" where
  "gd_timeout cmd fs = (Inl (ToolError ''Command timed out after 120 seconds''), fs)"

definition demo_url :: string where
  "demo_url = ''https://x.com/user/status/42''"

definition demo_banner :: string where
  "demo_banner = [CHR 0x0A] @ ''Downloading: '' @ demo_url"

definition demo_world_announced :: world where
  "demo_world_announced =
     \<lparr> filesys = [(''twitter_downloads/old.jpg'', 2048)], stdout = [demo_banner], calls = [] \<rparr>"

definition demo_video_result :: pydict where
  "demo_video_result =
     [''success'' \<mapsto> PBool True,
      ''type'' \<mapsto> PStr ''video'',
      ''resolution'' \<mapsto> PStr ''1280x720'',
      ''fps'' \<mapsto> PInt 30,
      ''size_mb'' \<mapsto> PFloat 3,
      ''filename'' \<mapsto> PStr ''twitter_downloads/42_720p.mp4'']"

definition demo_world_video :: world where
  "demo_world_video =
     \<lparr> filesys = [(''twitter_downloads/old.jpg'', 2048),
                  (''twitter_downloads/42_720p.mp4'', 3145728)],
       stdout = [demo_banner],
       calls = [VideoAdapter demo_url] \<rparr>"

definition demo_images_result :: pydict where
  "demo_images_result =
     [''success'' \<mapsto> PBool True,
      ''type'' \<mapsto> PStr ''images'',
      ''count'' \<mapsto> PInt 2,
      ''size_mb'' \<mapsto> PFloat (3 / 2),
      ''files'' \<mapsto> PList [PStr ''twitter_downloads/twitter_7_1.jpg'',
                            PStr ''twitter_downloads/twitter_7_2.jpg'']]"

definition demo_world_no_video :: world where
  "demo_world_no_video =
     \<lparr> filesys = [(''twitter_downloads/old.jpg'', 2048)],
       stdout = [demo_banner],
       calls = [VideoAdapter demo_url] \<rparr>"

definition demo_world_images :: world where
  "demo_world_images =
     \<lparr> filesys = [(''twitter_downloads/old.jpg'', 4096),
                  (''twitter_downloads/twitter_7_1.jpg'', 1048576),
                  (''twitter_downloads/twitter_7_2.jpg'', 524288)],
       stdout = [demo_banner],
       calls = [VideoAdapter demo_url, ImageAdapter demo_url] \<rparr>"

text \<open>
  A second iteration order for sets of paths, the descending one, and the environment that
  differs from \<open>demo_env\<close> in this order only.
\<close>

definition descending_iter :: "string set \<Rightarrow> string list" where
  "descending_iter S = rev (sorted_list_of_set S)"

definition demo_env_descending ::
  "(ydl_opts \<Rightarrow> string \<Rightarrow> filesystem \<Rightarrow> (exn + pydict option) \<times> filesystem) \<Rightarrow>
   (string list \<Rightarrow> filesystem \<Rightarrow> (exn + completed_process) \<times> filesystem) \<Rightarrow> env" where
  "demo_env_descending yt gd = (demo_env yt gd)\<lparr> set_iter := descending_iter \<rparr>"





definition closed_stdout :: "string list \<Rightarrow> string \<Rightarrow> exn option" where
  "closed_stdout written line = Some (ValueError ''I/O operation on closed file.'')"


definition demo_env_closed :: env where
  "demo_env_closed = (demo_env yt_video gd_two_images)\<lparr> stdout_write := closed_stdout \<rparr>"

section \<open>Properties\<close>

subsection \<open>Filename sanitizer\<close>

lemma re_sub_class_empty_repl:
  "re_sub_class cls [] s = filter (\<lambda>c. c \<notin> set cls) s"
  by (induction s) simp_all

text \<open>
  Claim C5. For every input string the sanitizer returns the input with exactly the nine
  characters backslash, slash, asterisk, question mark, colon, double quote, less-than,
  greater-than and vertical bar removed. All other characters are kept in their order,
  none of the nine occurs in the output, and the function is defined on every input,
  the empty string included.
\<close>

theorem sanitize_filename_removes_exactly:
  "sanitize_filename s =
     filter (\<lambda>c. c \<notin> {CHR 0x5C, CHR ''/'', CHR ''*'', CHR ''?'', CHR '':'', CHR 0x22,
                         CHR ''<'', CHR ''>'', CHR ''|''}) s
   \<and> set (sanitize_filename s)
       \<inter> {CHR 0x5C, CHR ''/'', CHR ''*'', CHR ''?'', CHR '':'', CHR 0x22,
            CHR ''<'', CHR ''>'', CHR ''|''} = {}
   \<and> sanitize_filename [] = []"
  by (auto simp: sanitize_filename_def re_sub_class_empty_repl illegal_chars_def)

subsection \<open>Printing\<close>

lemma print_msg_world:
  "print_msg E self m f w = Inr wp \<Longrightarrow> filesys wp = filesys w \<and> calls wp = calls w"
  by (auto simp: print_msg_def py_print_def split: if_splits option.splits)

lemma print_msg_calls:
  "print_msg E self m f (w\<lparr>calls := c\<rparr>) =
     (case print_msg E self m f w of Inl e \<Rightarrow> Inl e | Inr wp \<Rightarrow> Inr (wp\<lparr>calls := c\<rparr>))"
  by (simp add: print_msg_def py_print_def split: option.splits)

lemma print_msg_quiet: "\<not> verbose self \<Longrightarrow> print_msg E self m False w = Inr w"
  by (simp add: print_msg_def)

subsection \<open>Shape of the adapters' results\<close>

lemma failure_keys [simp]:
  "failure m ''success'' = Some (PBool False)"
  "failure m ''error'' = Some (PStr m)"
  "failure m ''url'' = None"
  "failure m ''type'' = None"
  by (simp_all add: failure_def)

lemma video_body_keys:
  assumes "video_body E self fs r = Inr d"
  shows "d ''success'' = Some (PBool True) \<and> d ''type'' = Some (PStr ''video'')
         \<and> d ''url'' = None \<and> d ''files'' = None \<and> d ''count'' = None \<and> d ''error'' = None"
  using assms
  by (auto simp: video_body_def split: option.splits sum.splits)

lemma video_adapter_cases:
  "(\<exists>m. fst (download_video_max_quality E self url w) = failure m)
   \<or> (\<exists>r. video_body E self (filesys (snd (download_video_max_quality E self url w))) r
            = Inr (fst (download_video_max_quality E self url w)))"
  by (auto simp: download_video_max_quality_def Let_def split: option.splits sum.splits prod.splits)

lemma video_adapter_calls:
  "calls (snd (download_video_max_quality E self url w)) = calls w @ [VideoAdapter url]"
  by (auto simp: download_video_max_quality_def Let_def dest: print_msg_world
      split: option.splits sum.splits prod.splits)

lemma video_adapter_flag:
  "\<exists>b. fst (download_video_max_quality E self url w) ''success'' = Some (PBool b)"
  using video_adapter_cases [of E self url w] video_body_keys by fastforce

lemma video_adapter_no_url:
  "fst (download_video_max_quality E self url w) ''url'' = None"
  using video_adapter_cases [of E self url w] video_body_keys by fastforce

lemma video_adapter_type:
  "fst (download_video_max_quality E self url w) ''success'' = Some (PBool True)
   \<Longrightarrow> fst (download_video_max_quality E self url w) ''type'' = Some (PStr ''video'')"
  using video_adapter_cases [of E self url w] video_body_keys by fastforce

lemma images_body_keys:
  assumes "images_body E fs N result = Inr d"
  shows "(\<exists>b. d ''success'' = Some (PBool b)) \<and> d ''url'' = None"
  using assms
  by (auto simp: images_body_def failure_def split: if_splits sum.splits)

lemma images_adapter_cases:
  "(\<exists>m. fst (download_images_max_quality E self url w) = failure m)
   \<or> (\<exists>fs N result. images_body E fs N result = Inr (fst (download_images_max_quality E self url w)))"
  by (auto simp: download_images_max_quality_def Let_def split: option.splits sum.splits prod.splits)

lemma images_adapter_calls:
  "calls (snd (download_images_max_quality E self url w)) = calls w @ [ImageAdapter url]"
  by (auto simp: download_images_max_quality_def Let_def dest: print_msg_world
      split: option.splits sum.splits prod.splits)

lemma images_adapter_flag:
  "\<exists>b. fst (download_images_max_quality E self url w) ''success'' = Some (PBool b)"
  using images_adapter_cases [of E self url w] images_body_keys by fastforce

lemma images_adapter_no_url:
  "fst (download_images_max_quality E self url w) ''url'' = None"
  using images_adapter_cases [of E self url w] images_body_keys by fastforce

lemma download_banner_raised:
  assumes "print_msg E self ([CHR 0x0A] @ ''Downloading: '' @ url) (\<not> verbose self) w = Inl e"
  shows "download E self url w = (Inl e, w)"
  using assms by (simp add: download_def)

lemma download_video_success:
  assumes "print_msg E self ([CHR 0x0A] @ ''Downloading: '' @ url) (\<not> verbose self) w = Inr w0"
      and "download_video_max_quality E self url w0 = (vr, w')"
      and "vr ''success'' = Some (PBool True)"
  shows "download E self url w = (Inr (vr(''url'' \<mapsto> PStr url)), w')"
  using assms by (simp add: download_def getitem_def Let_def)

lemma download_video_failure:
  assumes "print_msg E self ([CHR 0x0A] @ ''Downloading: '' @ url) (\<not> verbose self) w = Inr w0"
      and "download_video_max_quality E self url w0 = (vr, w1)"
      and "vr ''success'' = Some (PBool False)"
      and "download_images_max_quality E self url w1 = (ir, w2)"
  shows "download E self url w =
           (Inr (if ir ''success'' = Some (PBool True) then ir(''url'' \<mapsto> PStr url) else ir), w2)"
proof -
  obtain b where b: "ir ''success'' = Some (PBool b)"
    using images_adapter_flag [of E self url w1] assms(4) by auto
  show ?thesis
    using assms b by (cases b) (simp_all add: download_def getitem_def Let_def)
qed


subsection \<open>Sizes and the listing of new files\<close>

lemma st_size_present:
  "p \<in> fst ` set fs \<Longrightarrow> st_size fs p = Inr (size_on_disk fs p)"
  by (auto simp: st_size_def size_on_disk_def map_of_eq_None_iff split: option.splits)

lemma sum_sizes_present:
  "set ps \<subseteq> fst ` set fs \<Longrightarrow> sum_sizes fs ps = Inr (sum_list (map (size_on_disk fs) ps))"
  by (induction ps) (simp_all add: st_size_present)

lemma glob_star_subset: "set (glob_star folder fs) \<subseteq> fst ` set fs"
  by (auto simp: glob_star_def)

lemma sum_sizes_new_files:
  assumes "lawful_set_iter E" and "N \<subseteq> set (glob_star folder fs)"
  shows "sum_sizes fs (set_iter E N) = Inr (\<Sum>p\<in>N. size_on_disk fs p)"
proof -
  have fin: "finite N"
    using assms(2) finite_subset by blast
  have s: "set (set_iter E N) = N" and d: "distinct (set_iter E N)"
    using assms(1) fin by (simp_all add: lawful_set_iter_def)
  have "set (set_iter E N) \<subseteq> fst ` set fs"
    using s assms(2) glob_star_subset by blast
  then have "sum_sizes fs (set_iter E N) = Inr (sum_list (map (size_on_disk fs) (set_iter E N)))"
    by (rule sum_sizes_present)
  also have "sum_list (map (size_on_disk fs) (set_iter E N)) = (\<Sum>p\<in>N. size_on_disk fs p)"
    using d s by (simp add: sum_list_distinct_conv_sum_set)
  finally show ?thesis .
qed

lemma images_adapter_print_raised:
  assumes "print_msg E self ''  Downloading images...'' False w = Inl e"
  shows "download_images_max_quality E self url w
           = (failure (exn_str e), w\<lparr>calls := calls w @ [ImageAdapter url]\<rparr>)"
  using assms by (simp add: download_images_max_quality_def Let_def print_msg_calls)

lemma images_adapter_raised:
  assumes "print_msg E self ''  Downloading images...'' False w = Inr wp"
      and "subprocess_run E (gallery_cmd self url) (filesys w) = (Inl e, fs')"
  shows "fst (download_images_max_quality E self url w) = failure (exn_str e)
         \<and> filesys (snd (download_images_max_quality E self url w)) = fs'"
  using assms print_msg_world [OF assms(1)]
  by (simp add: download_images_max_quality_def Let_def print_msg_calls)

lemma images_adapter_returned:
  assumes "lawful_set_iter E"
      and "print_msg E self ''  Downloading images...'' False w = Inr wp"
      and "subprocess_run E (gallery_cmd self url) (filesys w) = (Inr result, fs')"
      and "N = set (glob_star (output_folder self) fs') - set (glob_star (output_folder self) (filesys w))"
  shows "fst (download_images_max_quality E self url w) =
           (if returncode result = 0 \<and> N \<noteq> {} then
              [''success'' \<mapsto> PBool True,
               ''type'' \<mapsto> PStr ''images'',
               ''count'' \<mapsto> PInt (int (card N)),
               ''size_mb'' \<mapsto>
                  PFloat (round2 (of_nat (\<Sum>p\<in>N. size_on_disk fs' p) / (1024 * 1024))),
               ''files'' \<mapsto> PList (map PStr (set_iter E N))]
            else failure (if proc_stderr result \<noteq> [] then proc_stderr result
                          else ''No images found''))
         \<and> filesys (snd (download_images_max_quality E self url w)) = fs'"
proof -
  have "N \<subseteq> set (glob_star (output_folder self) fs')"
    using assms(4) by blast
  then have "sum_sizes fs' (set_iter E N) = Inr (\<Sum>p\<in>N. size_on_disk fs' p)"
    using assms(1) by (rule sum_sizes_new_files [rotated])
  then show ?thesis
    using assms(2,3,4) print_msg_world [OF assms(2)]
    by (simp add: download_images_max_quality_def images_body_def Let_def print_msg_calls)
qed

lemma images_adapter_filesys:
  assumes "print_msg E self ''  Downloading images...'' False w = Inr wp"
  shows "filesys (snd (download_images_max_quality E self url w)) =
           snd (subprocess_run E (gallery_cmd self url) (filesys w))"
  using assms print_msg_world [OF assms]
  by (auto simp: download_images_max_quality_def Let_def print_msg_calls
      split: sum.splits prod.splits)

lemma round_half_even_nonneg: "0 \<le> x \<Longrightarrow> 0 \<le> round_half_even x"
  by (auto simp: round_half_even_def Let_def)

lemma round2_nonneg: "0 \<le> x \<Longrightarrow> 0 \<le> round2 x"
  by (simp add: round2_def round_half_even_nonneg)

lemma round2_mb_nonneg: "0 \<le> round2 (of_nat n / (1024 * 1024))"
  by (rule round2_nonneg) simp

lemma nonneg_number_mb: "nonneg_number (PFloat (round2 (of_nat n / (1024 * 1024))))"
  by (simp only: nonneg_number_def pyval.case round2_mb_nonneg)

lemma video_adapter_success_payload:
  assumes "download_video_max_quality E self url w = (d, w')"
      and "d ''success'' = Some (PBool True)"
  shows "\<exists>fn. d ''filename'' = Some (PStr fn)
           \<and> d ''size_mb'' =
               Some (if path_exists (filesys w') fn
                     then PFloat (round2 (of_nat (size_on_disk (filesys w') fn) / (1024 * 1024)))
                     else PInt 0)"
  using assms
  by (auto simp: download_video_max_quality_def video_body_def video_size_mb_def st_size_def
        path_exists_def size_on_disk_def failure_def Let_def
      split: option.splits sum.splits prod.splits if_splits)

lemma video_adapter_success_keys:
  assumes "download_video_max_quality E self url w = (d, w')"
      and "d ''success'' = Some (PBool True)"
  shows "d ''files'' = None \<and> d ''count'' = None"
  using assms
  by (auto simp: download_video_max_quality_def video_body_def failure_def Let_def
      split: option.splits sum.splits prod.splits)

lemma images_adapter_success_printed:
  assumes "fst (download_images_max_quality E self url w) ''success'' = Some (PBool True)"
  shows "\<exists>wp. print_msg E self ''  Downloading images...'' False w = Inr wp"
proof (cases "print_msg E self ''  Downloading images...'' False w")
  case (Inl e)
  then show ?thesis
    using images_adapter_print_raised [of E self w e url] assms by simp
next
  case (Inr wp)
  then show ?thesis
    by simp
qed

lemma images_adapter_success_run:
  assumes "fst (download_images_max_quality E self url w) ''success'' = Some (PBool True)"
  shows "\<exists>result fs'. subprocess_run E (gallery_cmd self url) (filesys w) = (Inr result, fs')
           \<and> returncode result = 0
           \<and> set (glob_star (output_folder self) fs')
               - set (glob_star (output_folder self) (filesys w)) \<noteq> {}"
proof -
  obtain wp where wp: "print_msg E self ''  Downloading images...'' False w = Inr wp"
    using images_adapter_success_printed [OF assms] by blast
  show ?thesis
    using assms wp print_msg_world [OF wp]
    by (auto simp: download_images_max_quality_def images_body_def failure_def Let_def
          print_msg_calls
        split: sum.splits prod.splits if_splits)
qed

lemma images_adapter_success_payload:
  assumes "lawful_set_iter E"
      and "download_images_max_quality E self url w = (d, w')"
      and "d ''success'' = Some (PBool True)"
      and "N = set (glob_star (output_folder self) (filesys w'))
               - set (glob_star (output_folder self) (filesys w))"
  shows "d = [''success'' \<mapsto> PBool True,
              ''type'' \<mapsto> PStr ''images'',
              ''count'' \<mapsto> PInt (int (card N)),
              ''size_mb'' \<mapsto>
                 PFloat (round2 (of_nat (\<Sum>p\<in>N. size_on_disk (filesys w') p) / (1024 * 1024))),
              ''files'' \<mapsto> PList (map PStr (set_iter E N))]
         \<and> finite N \<and> N \<noteq> {} \<and> set (set_iter E N) = N \<and> distinct (set_iter E N)"
proof -
  have succ: "fst (download_images_max_quality E self url w) ''success'' = Some (PBool True)"
    using assms(2,3) by simp
  obtain wp where wp: "print_msg E self ''  Downloading images...'' False w = Inr wp"
    using images_adapter_success_printed [OF succ] by blast
  obtain result fs' where run: "subprocess_run E (gallery_cmd self url) (filesys w) = (Inr result, fs')"
    and rc: "returncode result = 0"
    and ne: "set (glob_star (output_folder self) fs')
               - set (glob_star (output_folder self) (filesys w)) \<noteq> {}"
    using images_adapter_success_run [OF succ] by auto
  have fs: "filesys w' = fs'"
    using images_adapter_filesys [OF wp, of url] run assms(2) by simp
  have N: "N = set (glob_star (output_folder self) fs')
               - set (glob_star (output_folder self) (filesys w))"
    using assms(4) fs by simp
  have fin: "finite N"
    using N by simp
  have "set (set_iter E N) = N \<and> distinct (set_iter E N)"
    using assms(1) fin by (simp add: lawful_set_iter_def)
  then show ?thesis
    using images_adapter_returned [OF assms(1) wp run N] assms(2) rc ne N fs fin by simp
qed

subsection \<open>The example runs, evaluated\<close>

lemma demo_lawful: "lawful_set_iter (demo_env yt gd)"
  by (simp add: lawful_set_iter_def demo_env_def)

lemma demo_lawful_descending: "lawful_set_iter (demo_env_descending yt gd)"
  by (simp add: lawful_set_iter_def demo_env_descending_def descending_iter_def)

lemma str_int_720: "str_int 720 = ''720''"
  by code_simp

lemma str_int_1280: "str_int 1280 = ''1280''"
  by code_simp

lemma demo_announce:
  "print_msg (demo_env yt gd) demo_downloader ([CHR 0x0A] @ ''Downloading: '' @ demo_url)
     (\<not> verbose demo_downloader) demo_world
   = Inr demo_world_announced"
  by (simp add: print_msg_def py_print_def demo_env_def demo_downloader_def demo_world_def
      demo_banner_def demo_world_announced_def)

lemma demo_quiet:
  "print_msg E demo_downloader m False w = Inr w"
  by (simp add: print_msg_def demo_downloader_def)

lemma demo_video_run:
  "download_video_max_quality (demo_env yt_video gd) demo_downloader demo_url demo_world_announced
   = (demo_video_result, demo_world_video)"
  by (simp add: download_video_max_quality_def demo_env_def demo_downloader_def yt_video_def
      print_msg_def video_body_def video_filename_def demo_info_def getitem_def dict_get_def
      str_int_720 str_int_1280 video_size_mb_def path_exists_def st_size_def round2_def
      round_half_even_def Let_def demo_video_result_def demo_world_video_def
      demo_world_announced_def)

lemma demo_no_video_run:
  "download_video_max_quality (demo_env yt_no_video gd) demo_downloader demo_url demo_world_announced
   = (failure ''No video could be found in this tweet'', demo_world_no_video)"
  by (simp add: download_video_max_quality_def demo_env_def demo_downloader_def yt_no_video_def
      print_msg_def Let_def demo_world_no_video_def demo_world_announced_def)

lemma demo_glob_before:
  "glob_star ''twitter_downloads'' [(''twitter_downloads/old.jpg'', 2048)]
   = [''twitter_downloads/old.jpg'']"
  by (simp add: glob_star_def in_folder_def)

lemma demo_glob_after:
  "glob_star ''twitter_downloads''
     [(''twitter_downloads/old.jpg'', 4096),
      (''twitter_downloads/twitter_7_1.jpg'', 1048576),
      (''twitter_downloads/twitter_7_2.jpg'', 524288)]
   = [''twitter_downloads/old.jpg'', ''twitter_downloads/twitter_7_1.jpg'',
      ''twitter_downloads/twitter_7_2.jpg'']"
  by (simp add: glob_star_def in_folder_def)

lemma demo_new_files:
  "set [''twitter_downloads/old.jpg'', ''twitter_downloads/twitter_7_1.jpg'',
        ''twitter_downloads/twitter_7_2.jpg''] - set [''twitter_downloads/old.jpg'']
   = {''twitter_downloads/twitter_7_1.jpg'', ''twitter_downloads/twitter_7_2.jpg''}"
  by auto

lemma demo_iter:
  "sorted_list_of_set {''twitter_downloads/twitter_7_1.jpg'', ''twitter_downloads/twitter_7_2.jpg''}
   = [''twitter_downloads/twitter_7_1.jpg'', ''twitter_downloads/twitter_7_2.jpg'']"
  by code_simp

lemma demo_iter_descending:
  "descending_iter {''twitter_downloads/twitter_7_1.jpg'', ''twitter_downloads/twitter_7_2.jpg''}
   = [''twitter_downloads/twitter_7_2.jpg'', ''twitter_downloads/twitter_7_1.jpg'']"
  by (simp only: descending_iter_def demo_iter rev.simps append.simps)

lemma demo_not_sorted:
  "\<not> sorted [''twitter_downloads/twitter_7_2.jpg'', ''twitter_downloads/twitter_7_1.jpg'']"
  by code_simp

lemma demo_listing_order:
  "filter (\<lambda>p. p \<notin> set (glob_star (output_folder demo_downloader) (filesys demo_world_no_video)))
     (glob_star (output_folder demo_downloader) (filesys demo_world_images))
   = [''twitter_downloads/twitter_7_1.jpg'', ''twitter_downloads/twitter_7_2.jpg'']"
  by (simp add: demo_downloader_def demo_world_no_video_def demo_world_images_def
      demo_glob_before demo_glob_after)

lemma demo_round: "round2 (3 / 2) = 3 / 2"
  by (simp add: round2_def round_half_even_def Let_def)

lemma demo_tool_run:
  "subprocess_run (demo_env yt gd_two_images) (gallery_cmd demo_downloader demo_url)
     (filesys demo_world_no_video)
   = (Inr \<lparr> returncode = 0, proc_stdout = [], proc_stderr = [] \<rparr>,
      [(''twitter_downloads/old.jpg'', 4096),
       (''twitter_downloads/twitter_7_1.jpg'', 1048576),
       (''twitter_downloads/twitter_7_2.jpg'', 524288)])"
  by (simp add: demo_env_def gd_two_images_def)

lemma demo_tool_new_files:
  "{''twitter_downloads/twitter_7_1.jpg'', ''twitter_downloads/twitter_7_2.jpg''}
   = set (glob_star (output_folder demo_downloader)
            [(''twitter_downloads/old.jpg'', 4096),
             (''twitter_downloads/twitter_7_1.jpg'', 1048576),
             (''twitter_downloads/twitter_7_2.jpg'', 524288)])
     - set (glob_star (output_folder demo_downloader) (filesys demo_world_no_video))"
  by (simp only: demo_downloader_def demo_world_no_video_def downloader.simps world.simps
        demo_glob_before demo_glob_after demo_new_files)

lemma demo_images_run:
  "download_images_max_quality (demo_env yt gd_two_images) demo_downloader demo_url
     demo_world_no_video = (demo_images_result, demo_world_images)"
proof -
  let ?E = "demo_env yt gd_two_images"
  have res: "fst (download_images_max_quality ?E demo_downloader demo_url demo_world_no_video)
             = demo_images_result"
    using images_adapter_returned [OF demo_lawful demo_quiet demo_tool_run demo_tool_new_files]
    by (simp add: demo_images_result_def demo_env_def demo_iter size_on_disk_def demo_round)
  have wld: "snd (download_images_max_quality ?E demo_downloader demo_url demo_world_no_video)
             = demo_world_images"
    by (simp add: download_images_max_quality_def demo_env_def gd_two_images_def Let_def
          print_msg_def demo_downloader_def demo_world_no_video_def demo_world_images_def
          split: sum.splits)
  show ?thesis
    using res wld by (simp add: prod_eq_iff)
qed

lemma demo_images_run_descending:
  "fst (download_images_max_quality (demo_env_descending yt gd_two_images) demo_downloader demo_url
          demo_world_no_video)
   = demo_images_result(''files'' \<mapsto> PList [PStr ''twitter_downloads/twitter_7_2.jpg'',
                                               PStr ''twitter_downloads/twitter_7_1.jpg''])"
proof -
  have run: "subprocess_run (demo_env_descending yt gd_two_images)
               (gallery_cmd demo_downloader demo_url) (filesys demo_world_no_video)
             = (Inr \<lparr> returncode = 0, proc_stdout = [], proc_stderr = [] \<rparr>,
                [(''twitter_downloads/old.jpg'', 4096),
                 (''twitter_downloads/twitter_7_1.jpg'', 1048576),
                 (''twitter_downloads/twitter_7_2.jpg'', 524288)])"
    using demo_tool_run [of yt] by (simp add: demo_env_descending_def)
  have it: "set_iter (demo_env_descending yt gd_two_images)
              {''twitter_downloads/twitter_7_1.jpg'', ''twitter_downloads/twitter_7_2.jpg''}
            = [''twitter_downloads/twitter_7_2.jpg'', ''twitter_downloads/twitter_7_1.jpg'']"
    using demo_iter_descending by (simp add: demo_env_descending_def)
  show ?thesis
    using images_adapter_returned [OF demo_lawful_descending demo_quiet run demo_tool_new_files]
    by (simp add: demo_images_result_def it size_on_disk_def demo_round)
qed

lemma demo_failed_run:
  "download_images_max_quality (demo_env yt gd_silent) demo_downloader demo_url demo_world_no_video
   = (failure ''No images found'',
      \<lparr> filesys = [(''twitter_downloads/old.jpg'', 2048)], stdout = [demo_banner],
        calls = [VideoAdapter demo_url, ImageAdapter demo_url] \<rparr>)"
  by (simp add: download_images_max_quality_def images_body_def demo_env_def gd_silent_def
        Let_def print_msg_def demo_downloader_def demo_world_no_video_def)

lemma demo_warning_run:
  "fst (download_images_max_quality (demo_env yt gd_warning) demo_downloader demo_url
          demo_world_no_video)
   = failure ''[twitter][warning] No results''"
  by (simp add: download_images_max_quality_def images_body_def demo_env_def gd_warning_def
        Let_def print_msg_def demo_downloader_def demo_world_no_video_def)



lemma demo_progress_closed:
  "print_msg demo_env_closed demo_verbose ''  Downloading images...'' False demo_world_no_video
   = Inl (ValueError ''I/O operation on closed file.'')"
  by (simp add: print_msg_def py_print_def demo_env_closed_def demo_env_def demo_verbose_def
      closed_stdout_def)

lemma map_upd_new_neq: "m k = None \<Longrightarrow> m(k \<mapsto> v) \<noteq> m"
  by (metis fun_upd_same option.distinct(1))

subsection \<open>The caller of the downloader\<close>











subsection \<open>The orchestrator\<close>




text \<open>
  Claim C1, as amended. When the video adapter reports success, \<^verbatim>\<open>download\<close> returns the
  video adapter's result with the field \<^verbatim>\<open>'url'\<close> added (not the result verbatim: the
  adapter's result has no such field); the result is tagged \<^verbatim>\<open>'video'\<close>, and the image
  adapter is not invoked: the only adapter event of the call is the video adapter's.
  The video adapter is entered in the world \<open>w0\<close> that the banner leaves.
\<close>

theorem download_prefers_video:
  assumes "print_msg E self ([CHR 0x0A] @ ''Downloading: '' @ url) (\<not> verbose self) w = Inr w0"
      and "download_video_max_quality E self url w0 = (vr, w')"
      and "vr ''success'' = Some (PBool True)"
  shows "download E self url w = (Inr (vr(''url'' \<mapsto> PStr url)), w')
         \<and> vr ''type'' = Some (PStr ''video'')
         \<and> vr ''url'' = None
         \<and> calls w' = calls w @ [VideoAdapter url]"
proof -
  have "vr ''type'' = Some (PStr ''video'')"
    using video_adapter_type [of E self url w0] assms(2,3) by simp
  moreover have "vr ''url'' = None"
    using video_adapter_no_url [of E self url w0] assms(2) by simp
  moreover have "calls w' = calls w @ [VideoAdapter url]"
    using video_adapter_calls [of E self url w0] assms(2) print_msg_world [OF assms(1)] by simp
  ultimately show ?thesis
    using download_video_success [OF assms] by simp
qed

text \<open>
  The claim as first stated fails on the post with a video: the video adapter succeeds, and
  what \<^verbatim>\<open>download\<close> returns is not the adapter's dictionary, because it has the
  additional field \<^verbatim>\<open>'url'\<close>.
\<close>

theorem download_verbatim_video_counterexample:
  "print_msg (demo_env yt_video gd_silent) demo_downloader
     ([CHR 0x0A] @ ''Downloading: '' @ demo_url) (\<not> verbose demo_downloader) demo_world
     = Inr demo_world_announced
   \<and> download_video_max_quality (demo_env yt_video gd_silent) demo_downloader demo_url
       demo_world_announced
     = (demo_video_result, demo_world_video)
   \<and> demo_video_result ''success'' = Some (PBool True)
   \<and> fst (download (demo_env yt_video gd_silent) demo_downloader demo_url demo_world)
       \<noteq> Inr demo_video_result"
proof -
  have s: "demo_video_result ''success'' = Some (PBool True)"
    by (simp add: demo_video_result_def)
  have u: "demo_video_result ''url'' = None"
    by (simp add: demo_video_result_def)
  have "fst (download (demo_env yt_video gd_silent) demo_downloader demo_url demo_world)
          = Inr (demo_video_result(''url'' \<mapsto> PStr demo_url))"
    using download_video_success [OF demo_announce demo_video_run s] by simp
  then show ?thesis
    using demo_announce demo_video_run s u
      map_upd_new_neq [of demo_video_result "''url''" "PStr demo_url"] by simp
qed

text \<open>
  The property on the post with a video: the file of 3145728 bytes is reported as 3.0
  megabytes, the URL is added, and only the video adapter was entered.
\<close>

theorem download_prefers_video_witness:
  "download (demo_env yt_video gd_silent) demo_downloader demo_url demo_world
     = (Inr (demo_video_result(''url'' \<mapsto> PStr demo_url)), demo_world_video)
   \<and> demo_video_result ''success'' = Some (PBool True)
   \<and> demo_video_result ''type'' = Some (PStr ''video'')
   \<and> calls demo_world_video = calls demo_world @ [VideoAdapter demo_url]"
proof -
  have s: "demo_video_result ''success'' = Some (PBool True)"
    by (simp add: demo_video_result_def)
  show ?thesis
    using download_prefers_video [OF demo_announce demo_video_run s] s by simp
qed

text \<open>
  Claim C2, as amended. When the video adapter reports failure, \<^verbatim>\<open>download\<close> invokes the
  image adapter exactly once, after the video adapter, and returns its result: verbatim
  when that result is a failure, with the field \<^verbatim>\<open>'url'\<close> added when it is a success.
  The video adapter is entered in the world \<open>w0\<close> that the banner leaves.
\<close>

theorem download_falls_back_to_images:
  assumes "print_msg E self ([CHR 0x0A] @ ''Downloading: '' @ url) (\<not> verbose self) w = Inr w0"
      and "download_video_max_quality E self url w0 = (vr, w1)"
      and "vr ''success'' = Some (PBool False)"
      and "download_images_max_quality E self url w1 = (ir, w2)"
  shows "download E self url w =
           (Inr (if ir ''success'' = Some (PBool True) then ir(''url'' \<mapsto> PStr url) else ir), w2)
         \<and> ir ''url'' = None
         \<and> calls w2 = calls w @ [VideoAdapter url, ImageAdapter url]"
proof -
  have "calls w1 = calls w @ [VideoAdapter url]"
    using video_adapter_calls [of E self url w0] assms(2) print_msg_world [OF assms(1)] by simp
  moreover have "calls w2 = calls w1 @ [ImageAdapter url]"
    using images_adapter_calls [of E self url w1] assms(4) by simp
  moreover have "ir ''url'' = None"
    using images_adapter_no_url [of E self url w1] assms(4) by simp
  ultimately show ?thesis
    using download_video_failure [OF assms] by simp
qed

text \<open>
  The claim as first stated fails on the post with two images: the video adapter fails, the
  image adapter succeeds, and \<^verbatim>\<open>download\<close> returns its dictionary with the additional field
  \<^verbatim>\<open>'url'\<close>.
\<close>

theorem download_verbatim_images_counterexample:
  "print_msg (demo_env yt_no_video gd_two_images) demo_downloader
     ([CHR 0x0A] @ ''Downloading: '' @ demo_url) (\<not> verbose demo_downloader) demo_world
     = Inr demo_world_announced
   \<and> fst (download_video_max_quality (demo_env yt_no_video gd_two_images) demo_downloader demo_url
          demo_world_announced) ''success'' = Some (PBool False)
   \<and> download_images_max_quality (demo_env yt_no_video gd_two_images) demo_downloader demo_url
       demo_world_no_video = (demo_images_result, demo_world_images)
   \<and> fst (download (demo_env yt_no_video gd_two_images) demo_downloader demo_url demo_world)
       \<noteq> Inr demo_images_result"
proof -
  have f: "failure ''No video could be found in this tweet'' ''success'' = Some (PBool False)"
    by simp
  have s: "demo_images_result ''success'' = Some (PBool True)"
    by (simp add: demo_images_result_def)
  have u: "demo_images_result ''url'' = None"
    by (simp add: demo_images_result_def)
  have "fst (download (demo_env yt_no_video gd_two_images) demo_downloader demo_url demo_world)
          = Inr (demo_images_result(''url'' \<mapsto> PStr demo_url))"
    using download_video_failure [OF demo_announce demo_no_video_run f demo_images_run] s by simp
  then show ?thesis
    using demo_announce demo_no_video_run demo_images_run u
      map_upd_new_neq [of demo_images_result "''url''" "PStr demo_url"] by simp
qed

text \<open>
  The property on the post with two images (a success, returned with the URL) and on the
  post with nothing to fetch (a failure, returned verbatim).
\<close>

theorem download_falls_back_to_images_witness:
  "download (demo_env yt_no_video gd_two_images) demo_downloader demo_url demo_world
     = (Inr (demo_images_result(''url'' \<mapsto> PStr demo_url)), demo_world_images)
   \<and> calls demo_world_images = calls demo_world @ [VideoAdapter demo_url, ImageAdapter demo_url]
   \<and> fst (download (demo_env yt_no_video gd_silent) demo_downloader demo_url demo_world)
       = Inr (failure ''No images found'')"
proof -
  have f: "failure ''No video could be found in this tweet'' ''success'' = Some (PBool False)"
    by simp
  have s: "demo_images_result ''success'' = Some (PBool True)"
    by (simp add: demo_images_result_def)
  have a: "download (demo_env yt_no_video gd_two_images) demo_downloader demo_url demo_world
     = (Inr (demo_images_result(''url'' \<mapsto> PStr demo_url)), demo_world_images)
     \<and> calls demo_world_images = calls demo_world @ [VideoAdapter demo_url, ImageAdapter demo_url]"
    using download_falls_back_to_images [OF demo_announce demo_no_video_run f demo_images_run] s
    by simp
  have b: "fst (download (demo_env yt_no_video gd_silent) demo_downloader demo_url demo_world)
       = Inr (failure ''No images found'')"
    using download_falls_back_to_images [OF demo_announce demo_no_video_run f demo_failed_run]
    by simp
  show ?thesis
    using a b by simp
qed

text \<open>
  Claim C10. Once the banner is written, let \<open>ar\<close> be the result of the adapter that
  decides the call: the video adapter's when it reports success, the image adapter's
  otherwise. The adapter's result has no \<^verbatim>\<open>'url'\<close> field. When \<open>ar\<close> is a success,
  \<^verbatim>\<open>download\<close> returns \<open>ar\<close> with the one field \<^verbatim>\<open>'url'\<close> added, holding the request URL;
  when \<open>ar\<close> is a failure, \<^verbatim>\<open>download\<close> returns \<open>ar\<close> unchanged. When printing the banner
  raises, no adapter reports anything and \<^verbatim>\<open>download\<close> returns no dictionary.
\<close>

theorem download_adds_url_on_success:
  "(case print_msg E self ([CHR 0x0A] @ ''Downloading: '' @ url) (\<not> verbose self) w of
      Inl e \<Rightarrow> download E self url w = (Inl e, w)
    | Inr w0 \<Rightarrow>
        (let va = download_video_max_quality E self url w0;
             ia = download_images_max_quality E self url (snd va);
             ar = (if fst va ''success'' = Some (PBool True) then fst va else fst ia)
         in ar ''url'' = None
            \<and> fst (download E self url w) =
                Inr (if ar ''success'' = Some (PBool True) then ar(''url'' \<mapsto> PStr url) else ar)))"
proof (cases "print_msg E self ([CHR 0x0A] @ ''Downloading: '' @ url) (\<not> verbose self) w")
  case (Inl e)
  then show ?thesis
    using download_banner_raised [OF Inl] by simp
next
  case (Inr w0)
  obtain vr w1 where va: "download_video_max_quality E self url w0 = (vr, w1)"
    by (cases "download_video_max_quality E self url w0")
  obtain ir w2 where ia: "download_images_max_quality E self url w1 = (ir, w2)"
    by (cases "download_images_max_quality E self url w1")
  obtain vb where vb: "vr ''success'' = Some (PBool vb)"
    using video_adapter_flag [of E self url w0] va by auto
  have vu: "vr ''url'' = None"
    using video_adapter_no_url [of E self url w0] va by simp
  have iu: "ir ''url'' = None"
    using images_adapter_no_url [of E self url w1] ia by simp
  show ?thesis
  proof (cases vb)
    case True
    then show ?thesis
      using download_video_success [OF Inr va] vb vu va Inr by (simp add: Let_def)
  next
    case False
    then show ?thesis
      using download_video_failure [OF Inr va _ ia] vb iu va ia Inr by (simp add: Let_def)
  qed
qed

subsection \<open>The image adapter\<close>

text \<open>
  Claim C3. With \<open>B\<close> the listing of the output folder before the image tool runs and \<open>A\<close>
  the listing after it, the files reported by a successful image adapter are exactly the
  set difference \<open>A - B\<close>, each once. A path listed before the run is never reported,
  whatever the tool did to that file.
\<close>

theorem new_files_is_set_difference:
  assumes "lawful_set_iter E"
      and "download_images_max_quality E self url w = (d, w')"
      and "d ''success'' = Some (PBool True)"
  shows "\<exists>ps. d ''files'' = Some (PList (map PStr ps)) \<and> distinct ps
           \<and> set ps = set (glob_star (output_folder self) (filesys w'))
                        - set (glob_star (output_folder self) (filesys w))
           \<and> set ps \<inter> set (glob_star (output_folder self) (filesys w)) = {}"
proof -
  let ?N = "set (glob_star (output_folder self) (filesys w'))
              - set (glob_star (output_folder self) (filesys w))"
  have p: "d ''files'' = Some (PList (map PStr (set_iter E ?N)))
           \<and> set (set_iter E ?N) = ?N \<and> distinct (set_iter E ?N)"
    using images_adapter_success_payload [OF assms refl] by auto
  have "set (set_iter E ?N) \<inter> set (glob_star (output_folder self) (filesys w)) = {}"
    using p by blast
  then show ?thesis
    using p by blast
qed

text \<open>
  The property on the post with two images. The image tool rewrote
  \<^verbatim>\<open>old.jpg\<close> (2048 bytes before, 4096 after); it is not reported.
\<close>

theorem new_files_is_set_difference_witness:
  "\<exists>ps. demo_images_result ''files'' = Some (PList (map PStr ps)) \<and> distinct ps
      \<and> set ps = {''twitter_downloads/twitter_7_1.jpg'', ''twitter_downloads/twitter_7_2.jpg''}
      \<and> ''twitter_downloads/old.jpg'' \<notin> set ps"
proof -
  have s: "demo_images_result ''success'' = Some (PBool True)"
    by (simp add: demo_images_result_def)
  have N: "set (glob_star (output_folder demo_downloader) (filesys demo_world_images))
             - set (glob_star (output_folder demo_downloader) (filesys demo_world_no_video))
           = {''twitter_downloads/twitter_7_1.jpg'', ''twitter_downloads/twitter_7_2.jpg''}"
    by (simp only: demo_downloader_def demo_world_no_video_def demo_world_images_def
          downloader.simps world.simps demo_glob_before demo_glob_after demo_new_files)
  obtain ps where ps: "demo_images_result ''files'' = Some (PList (map PStr ps))" "distinct ps"
      "set ps = {''twitter_downloads/twitter_7_1.jpg'', ''twitter_downloads/twitter_7_2.jpg''}"
    using new_files_is_set_difference [OF demo_lawful demo_images_run s] N by auto
  have "''twitter_downloads/old.jpg'' \<notin> set ps"
    using ps(3) by simp
  then show ?thesis
    using ps by blast
qed

text \<open>
  Claim C4, as amended. The image adapter reports success if and only if it ran the tool,
  the tool returned with exit code zero and the set of new files is not empty. With exit
  code zero and no new file the outcome is a failure whose message is the tool's
  standard-error text when that text is not empty, and \<^verbatim>\<open>'No images found'\<close> when it is
  empty. The adapter runs the tool unless printing its progress line, which happens in
  verbose mode only, raised.
\<close>

theorem images_success_iff:
  assumes "lawful_set_iter E"
  shows "(fst (download_images_max_quality E self url w) ''success'' = Some (PBool True))
         = ((\<exists>wp. print_msg E self ''  Downloading images...'' False w = Inr wp)
            \<and> (\<exists>result fs'. subprocess_run E (gallery_cmd self url) (filesys w) = (Inr result, fs')
                 \<and> returncode result = 0
                 \<and> set (glob_star (output_folder self) fs')
                     - set (glob_star (output_folder self) (filesys w)) \<noteq> {}))
       \<and> (print_msg E self ''  Downloading images...'' False w = Inr wp0
            \<and> subprocess_run E (gallery_cmd self url) (filesys w) = (Inr r0, fs0)
            \<and> returncode r0 = 0
            \<and> set (glob_star (output_folder self) fs0)
                - set (glob_star (output_folder self) (filesys w)) = {}
          \<longrightarrow> fst (download_images_max_quality E self url w)
                = failure (if proc_stderr r0 \<noteq> [] then proc_stderr r0 else ''No images found''))"
proof (intro conjI iffI impI)
  assume "fst (download_images_max_quality E self url w) ''success'' = Some (PBool True)"
  then show "\<exists>wp. print_msg E self ''  Downloading images...'' False w = Inr wp"
    by (rule images_adapter_success_printed)
next
  assume "fst (download_images_max_quality E self url w) ''success'' = Some (PBool True)"
  then show "\<exists>result fs'. subprocess_run E (gallery_cmd self url) (filesys w) = (Inr result, fs')
              \<and> returncode result = 0
              \<and> set (glob_star (output_folder self) fs')
                  - set (glob_star (output_folder self) (filesys w)) \<noteq> {}"
    by (rule images_adapter_success_run)
next
  assume "(\<exists>wp. print_msg E self ''  Downloading images...'' False w = Inr wp)
          \<and> (\<exists>result fs'. subprocess_run E (gallery_cmd self url) (filesys w) = (Inr result, fs')
              \<and> returncode result = 0
              \<and> set (glob_star (output_folder self) fs')
                  - set (glob_star (output_folder self) (filesys w)) \<noteq> {})"
  then obtain wp result fs'
    where wp: "print_msg E self ''  Downloading images...'' False w = Inr wp"
    and run: "subprocess_run E (gallery_cmd self url) (filesys w) = (Inr result, fs')"
    and rc: "returncode result = 0"
    and ne: "set (glob_star (output_folder self) fs')
               - set (glob_star (output_folder self) (filesys w)) \<noteq> {}"
    by blast
  show "fst (download_images_max_quality E self url w) ''success'' = Some (PBool True)"
    using images_adapter_returned [OF assms wp run refl] rc ne by simp
next
  assume a: "print_msg E self ''  Downloading images...'' False w = Inr wp0
            \<and> subprocess_run E (gallery_cmd self url) (filesys w) = (Inr r0, fs0)
            \<and> returncode r0 = 0
            \<and> set (glob_star (output_folder self) fs0)
                - set (glob_star (output_folder self) (filesys w)) = {}"
  then have wp: "print_msg E self ''  Downloading images...'' False w = Inr wp0"
    and run: "subprocess_run E (gallery_cmd self url) (filesys w) = (Inr r0, fs0)"
    by simp_all
  show "fst (download_images_max_quality E self url w)
          = failure (if proc_stderr r0 \<noteq> [] then proc_stderr r0 else ''No images found'')"
    using images_adapter_returned [OF assms wp run refl] a by simp
qed

text \<open>
  The claim as first stated fails when the tool exits with code zero, creates no file and
  writes a warning to standard error: the failure message is the warning, not
  \<^verbatim>\<open>'No images found'\<close>.
\<close>

theorem images_no_files_message_counterexample:
  "subprocess_run (demo_env yt_no_video gd_warning) (gallery_cmd demo_downloader demo_url)
     (filesys demo_world_no_video)
     = (Inr \<lparr> returncode = 0, proc_stdout = [],
              proc_stderr = ''[twitter][warning] No results'' \<rparr>,
        filesys demo_world_no_video)
   \<and> fst (download_images_max_quality (demo_env yt_no_video gd_warning) demo_downloader demo_url
          demo_world_no_video) ''success'' = Some (PBool False)
   \<and> fst (download_images_max_quality (demo_env yt_no_video gd_warning) demo_downloader demo_url
          demo_world_no_video) ''error'' = Some (PStr ''[twitter][warning] No results'')
   \<and> fst (download_images_max_quality (demo_env yt_no_video gd_warning) demo_downloader demo_url
          demo_world_no_video) ''error'' \<noteq> Some (PStr ''No images found'')"
  by (simp add: demo_warning_run) (simp add: demo_env_def gd_warning_def)

text \<open>
  The property on the post with nothing to fetch (exit code zero, no new file, empty
  standard error) and on the post with two images.
\<close>

theorem images_success_iff_witness:
  "fst (download_images_max_quality (demo_env yt_no_video gd_silent) demo_downloader demo_url
          demo_world_no_video) = failure ''No images found''
   \<and> fst (download_images_max_quality (demo_env yt_no_video gd_two_images) demo_downloader demo_url
          demo_world_no_video) ''success'' = Some (PBool True)"
proof -
  have a: "fst (download_images_max_quality (demo_env yt_no_video gd_silent) demo_downloader
                  demo_url demo_world_no_video) = failure ''No images found''"
    using images_success_iff [OF demo_lawful, of yt_no_video gd_silent demo_downloader demo_url
        demo_world_no_video demo_world_no_video
        "\<lparr> returncode = 0, proc_stdout = [], proc_stderr = [] \<rparr>"
        "filesys demo_world_no_video"]
      demo_quiet [of "demo_env yt_no_video gd_silent" "''  Downloading images...''"
        demo_world_no_video]
    by (simp add: demo_env_def gd_silent_def)
  have pr: "\<exists>wp. print_msg (demo_env yt_no_video gd_two_images) demo_downloader
                   ''  Downloading images...'' False demo_world_no_video = Inr wp"
    using demo_quiet by blast
  have run: "subprocess_run (demo_env yt_no_video gd_two_images)
               (gallery_cmd demo_downloader demo_url) (filesys demo_world_no_video)
             = (Inr \<lparr> returncode = 0, proc_stdout = [], proc_stderr = [] \<rparr>,
                filesys demo_world_images)"
    by (simp add: demo_env_def gd_two_images_def demo_world_images_def)
  have N: "set (glob_star (output_folder demo_downloader) (filesys demo_world_images))
             - set (glob_star (output_folder demo_downloader) (filesys demo_world_no_video))
           = {''twitter_downloads/twitter_7_1.jpg'', ''twitter_downloads/twitter_7_2.jpg''}"
    by (simp only: demo_downloader_def demo_world_no_video_def demo_world_images_def
          downloader.simps world.simps demo_glob_before demo_glob_after demo_new_files)
  have ne: "set (glob_star (output_folder demo_downloader) (filesys demo_world_images))
             - set (glob_star (output_folder demo_downloader) (filesys demo_world_no_video)) \<noteq> {}"
    unfolding N by simp
  have rc: "returncode \<lparr> returncode = 0, proc_stdout = [], proc_stderr = [] \<rparr> = 0"
    by simp
  have ex: "\<exists>result fs'. subprocess_run (demo_env yt_no_video gd_two_images)
               (gallery_cmd demo_downloader demo_url) (filesys demo_world_no_video)
               = (Inr result, fs')
             \<and> returncode result = 0
             \<and> set (glob_star (output_folder demo_downloader) fs')
                 - set (glob_star (output_folder demo_downloader) (filesys demo_world_no_video))
                 \<noteq> {}"
    using run ne rc by blast
  have b: "fst (download_images_max_quality (demo_env yt_no_video gd_two_images) demo_downloader
                  demo_url demo_world_no_video) ''success'' = Some (PBool True)"
    using images_success_iff [OF demo_lawful, THEN conjunct1, of yt_no_video gd_two_images
        demo_downloader demo_url demo_world_no_video] pr ex
    by blast
  show ?thesis
    using a b by simp
qed

text \<open>
  Claim C7. Whenever the image adapter does not report success, its result is the failure
  dictionary whose message is: the text of the exception when one was raised during the
  invocation, by the subprocess call (a timeout included) or, before it, by printing the
  progress line; otherwise the tool's standard-error text when that text is not empty, and
  \<^verbatim>\<open>'No images found'\<close> when it is empty.
\<close>

theorem images_failure_message:
  assumes "lawful_set_iter E"
  shows "fst (download_images_max_quality E self url w) ''success'' = Some (PBool True)
         \<or> fst (download_images_max_quality E self url w) =
             failure (case print_msg E self ''  Downloading images...'' False w of
                        Inl e \<Rightarrow> exn_str e
                      | Inr wp \<Rightarrow>
                          (case fst (subprocess_run E (gallery_cmd self url) (filesys w)) of
                             Inl e \<Rightarrow> exn_str e
                           | Inr result \<Rightarrow>
                               if proc_stderr result \<noteq> [] then proc_stderr result
                               else ''No images found''))"
proof (cases "print_msg E self ''  Downloading images...'' False w")
  case (Inl e)
  then show ?thesis
    using images_adapter_print_raised [OF Inl, of url] by simp
next
  case (Inr wp)
  show ?thesis
  proof (cases "subprocess_run E (gallery_cmd self url) (filesys w)")
    case (Pair r fs')
    show ?thesis
    proof (cases r)
      case (Inl e)
      then show ?thesis
        using images_adapter_raised [OF Inr, of url e fs'] Pair Inr by simp
    next
      case r: (Inr result)
      then show ?thesis
        using images_adapter_returned [OF assms Inr _ refl, of url result fs'] Pair Inr by simp
    qed
  qed
qed

text \<open>
  The property on a tool that times out, on a tool that writes a warning and on a silent
  tool, none of which creates a file, and on a verbose downloader whose standard output is
  closed.
\<close>

theorem images_failure_message_witness:
  "fst (download_images_max_quality (demo_env yt_no_video gd_timeout) demo_downloader demo_url
          demo_world_no_video) = failure ''Command timed out after 120 seconds''
   \<and> fst (download_images_max_quality (demo_env yt_no_video gd_warning) demo_downloader demo_url
          demo_world_no_video) = failure ''[twitter][warning] No results''
   \<and> fst (download_images_max_quality (demo_env yt_no_video gd_silent) demo_downloader demo_url
          demo_world_no_video) = failure ''No images found''
   \<and> fst (download_images_max_quality demo_env_closed demo_verbose demo_url
          demo_world_no_video) = failure ''I/O operation on closed file.''"
proof -
  have ns: "fst (download_images_max_quality (demo_env yt_no_video gd) demo_downloader demo_url
                   demo_world_no_video) ''success'' \<noteq> Some (PBool True)"
    if "snd (gd (gallery_cmd demo_downloader demo_url) (filesys demo_world_no_video))
          = filesys demo_world_no_video" for gd
  proof
    assume "fst (download_images_max_quality (demo_env yt_no_video gd) demo_downloader demo_url
                   demo_world_no_video) ''success'' = Some (PBool True)"
    then show False
      using images_adapter_success_run [of "demo_env yt_no_video gd" demo_downloader demo_url
          demo_world_no_video] that
      by (auto simp: demo_env_def)
  qed
  have a: "fst (download_images_max_quality (demo_env yt_no_video gd_timeout) demo_downloader
                  demo_url demo_world_no_video) = failure ''Command timed out after 120 seconds''"
    using images_failure_message [OF demo_lawful, of yt_no_video gd_timeout demo_downloader
        demo_url demo_world_no_video] ns [of gd_timeout]
    by (simp add: demo_quiet) (simp add: demo_env_def gd_timeout_def)
  have b: "fst (download_images_max_quality (demo_env yt_no_video gd_warning) demo_downloader
                  demo_url demo_world_no_video) = failure ''[twitter][warning] No results''"
    using images_failure_message [OF demo_lawful, of yt_no_video gd_warning demo_downloader
        demo_url demo_world_no_video] ns [of gd_warning]
    by (simp add: demo_quiet) (simp add: demo_env_def gd_warning_def)
  have c: "fst (download_images_max_quality (demo_env yt_no_video gd_silent) demo_downloader
                  demo_url demo_world_no_video) = failure ''No images found''"
    using images_failure_message [OF demo_lawful, of yt_no_video gd_silent demo_downloader
        demo_url demo_world_no_video] ns [of gd_silent]
    by (simp add: demo_quiet) (simp add: demo_env_def gd_silent_def)
  have lc: "lawful_set_iter demo_env_closed"
    by (simp add: lawful_set_iter_def demo_env_closed_def demo_env_def)
  have nc: "fst (download_images_max_quality demo_env_closed demo_verbose demo_url
                   demo_world_no_video) ''success'' \<noteq> Some (PBool True)"
    using images_adapter_success_printed [of demo_env_closed demo_verbose demo_url
        demo_world_no_video] demo_progress_closed
    by auto
  have d: "fst (download_images_max_quality demo_env_closed demo_verbose demo_url
                  demo_world_no_video) = failure ''I/O operation on closed file.''"
    using images_failure_message [OF lc, of demo_verbose demo_url demo_world_no_video] nc
    by (simp add: demo_progress_closed)
  show ?thesis
    using a b c d by simp
qed

text \<open>
  Claim C8, as amended. A success of the image adapter is tagged \<^verbatim>\<open>'images'\<close> and carries
  the number of new files, their combined size in megabytes (the sum of their sizes on
  disk divided by 1024 * 1024 and rounded to two decimals) and the list of their paths.
  The list holds each new file once and is in the order in which Python iterates over the
  set of new files; no other order is imposed on it.
\<close>

theorem images_success_payload:
  assumes "lawful_set_iter E"
      and "download_images_max_quality E self url w = (d, w')"
      and "d ''success'' = Some (PBool True)"
      and "N = set (glob_star (output_folder self) (filesys w'))
               - set (glob_star (output_folder self) (filesys w))"
  shows "d ''type'' = Some (PStr ''images'')
         \<and> d ''count'' = Some (PInt (int (card N)))
         \<and> d ''size_mb'' =
             Some (PFloat (round2 (of_nat (\<Sum>p\<in>N. size_on_disk (filesys w') p) / (1024 * 1024))))
         \<and> d ''files'' = Some (PList (map PStr (set_iter E N)))
         \<and> set (set_iter E N) = N \<and> distinct (set_iter E N)
         \<and> length (set_iter E N) = card N"
proof -
  have p: "d = [''success'' \<mapsto> PBool True,
              ''type'' \<mapsto> PStr ''images'',
              ''count'' \<mapsto> PInt (int (card N)),
              ''size_mb'' \<mapsto>
                 PFloat (round2 (of_nat (\<Sum>p\<in>N. size_on_disk (filesys w') p) / (1024 * 1024))),
              ''files'' \<mapsto> PList (map PStr (set_iter E N))]"
    and s: "set (set_iter E N) = N" and di: "distinct (set_iter E N)"
    using images_adapter_success_payload [OF assms] by auto
  have "length (set_iter E N) = card N"
    using s di distinct_card by fastforce
  then show ?thesis
    using p s di by simp
qed

text \<open>
  The claim as first stated fails on the post with two images. The tool, the URL and the
  file system are the same in both runs, and both iteration orders visit each element of
  a set once; the two runs report the two paths in opposite orders. The list of the
  second run is neither in ascending order nor in the order of the directory listing: the
  paths are reported as a set is iterated, not as an ordered sequence.
\<close>

theorem images_files_order_counterexample:
  "lawful_set_iter (demo_env yt_no_video gd_two_images)
   \<and> lawful_set_iter (demo_env_descending yt_no_video gd_two_images)
   \<and> fst (download_images_max_quality (demo_env yt_no_video gd_two_images) demo_downloader
            demo_url demo_world_no_video) ''files''
       = Some (PList [PStr ''twitter_downloads/twitter_7_1.jpg'',
                      PStr ''twitter_downloads/twitter_7_2.jpg''])
   \<and> fst (download_images_max_quality (demo_env_descending yt_no_video gd_two_images)
            demo_downloader demo_url demo_world_no_video) ''success'' = Some (PBool True)
   \<and> fst (download_images_max_quality (demo_env_descending yt_no_video gd_two_images)
            demo_downloader demo_url demo_world_no_video) ''files''
       = Some (PList [PStr ''twitter_downloads/twitter_7_2.jpg'',
                      PStr ''twitter_downloads/twitter_7_1.jpg''])
   \<and> \<not> sorted [''twitter_downloads/twitter_7_2.jpg'', ''twitter_downloads/twitter_7_1.jpg'']
   \<and> [''twitter_downloads/twitter_7_2.jpg'', ''twitter_downloads/twitter_7_1.jpg'']
       \<noteq> filter (\<lambda>p. p \<notin> set (glob_star (output_folder demo_downloader)
                                    (filesys demo_world_no_video)))
            (glob_star (output_folder demo_downloader) (filesys demo_world_images))"
proof -
  have a: "fst (download_images_max_quality (demo_env yt_no_video gd_two_images) demo_downloader
            demo_url demo_world_no_video) ''files''
       = Some (PList [PStr ''twitter_downloads/twitter_7_1.jpg'',
                      PStr ''twitter_downloads/twitter_7_2.jpg''])"
    by (simp add: demo_images_run demo_images_result_def)
  have b: "fst (download_images_max_quality (demo_env_descending yt_no_video gd_two_images)
            demo_downloader demo_url demo_world_no_video) ''success'' = Some (PBool True)"
       "fst (download_images_max_quality (demo_env_descending yt_no_video gd_two_images)
            demo_downloader demo_url demo_world_no_video) ''files''
       = Some (PList [PStr ''twitter_downloads/twitter_7_2.jpg'',
                      PStr ''twitter_downloads/twitter_7_1.jpg''])"
    by (simp_all add: demo_images_run_descending demo_images_result_def)
  have c: "[''twitter_downloads/twitter_7_2.jpg'', ''twitter_downloads/twitter_7_1.jpg'']
       \<noteq> filter (\<lambda>p. p \<notin> set (glob_star (output_folder demo_downloader)
                                    (filesys demo_world_no_video)))
            (glob_star (output_folder demo_downloader) (filesys demo_world_images))"
    unfolding demo_listing_order by simp
  show ?thesis
    using demo_lawful demo_lawful_descending a b c demo_not_sorted by blast
qed

text \<open>
  The property on the post with two images: two files of 1048576 and 524288 bytes, 1.5
  megabytes together, listed in the ascending order of \<open>demo_env\<close>.
\<close>

theorem images_success_payload_witness:
  "demo_images_result ''type'' = Some (PStr ''images'')
   \<and> demo_images_result ''count'' = Some (PInt 2)
   \<and> demo_images_result ''size_mb'' = Some (PFloat (3 / 2))
   \<and> demo_images_result ''files''
       = Some (PList [PStr ''twitter_downloads/twitter_7_1.jpg'',
                      PStr ''twitter_downloads/twitter_7_2.jpg''])
   \<and> set_iter (demo_env yt_no_video gd_two_images)
         {''twitter_downloads/twitter_7_1.jpg'', ''twitter_downloads/twitter_7_2.jpg''}
       = [''twitter_downloads/twitter_7_1.jpg'', ''twitter_downloads/twitter_7_2.jpg'']"
proof -
  have it: "set_iter (demo_env yt_no_video gd_two_images)
         {''twitter_downloads/twitter_7_1.jpg'', ''twitter_downloads/twitter_7_2.jpg''}
       = [''twitter_downloads/twitter_7_1.jpg'', ''twitter_downloads/twitter_7_2.jpg'']"
    using demo_iter by (simp add: demo_env_def)
  have s: "demo_images_result ''success'' = Some (PBool True)"
    by (simp add: demo_images_result_def)
  have N: "{''twitter_downloads/twitter_7_1.jpg'', ''twitter_downloads/twitter_7_2.jpg''}
           = set (glob_star (output_folder demo_downloader) (filesys demo_world_images))
             - set (glob_star (output_folder demo_downloader) (filesys demo_world_no_video))"
    by (simp only: demo_downloader_def demo_world_no_video_def demo_world_images_def
          downloader.simps world.simps demo_glob_before demo_glob_after demo_new_files)
  have c: "card {''twitter_downloads/twitter_7_1.jpg'', ''twitter_downloads/twitter_7_2.jpg''} = 2"
    by simp
  have t: "demo_images_result ''files''
       = Some (PList (map PStr (set_iter (demo_env yt_no_video gd_two_images)
            {''twitter_downloads/twitter_7_1.jpg'', ''twitter_downloads/twitter_7_2.jpg''})))"
     and l: "length (set_iter (demo_env yt_no_video gd_two_images)
            {''twitter_downloads/twitter_7_1.jpg'', ''twitter_downloads/twitter_7_2.jpg''})
          = card {''twitter_downloads/twitter_7_1.jpg'', ''twitter_downloads/twitter_7_2.jpg''}"
    using images_success_payload [OF demo_lawful demo_images_run s N] by blast+
  have f: "demo_images_result ''files''
       = Some (PList [PStr ''twitter_downloads/twitter_7_1.jpg'',
                      PStr ''twitter_downloads/twitter_7_2.jpg''])"
    using t l c by (simp add: it)
  have "demo_images_result ''type'' = Some (PStr ''images'')"
      "demo_images_result ''count'' = Some (PInt 2)"
      "demo_images_result ''size_mb'' = Some (PFloat (3 / 2))"
    by (simp_all add: demo_images_result_def)
  then show ?thesis
    using f it by blast
qed

subsection \<open>Invariants of a success\<close>

text \<open>
  Claim C9. In a success of either adapter the size in megabytes is a number that is not
  negative, and it is computed from the file system the tool left: for a video from the
  size on disk of the reported file (the integer 0 when that file does not exist), for
  images from the sizes on disk of the new files. A video success carries no
  \<^verbatim>\<open>'files'\<close> and no \<^verbatim>\<open>'count'\<close>; an image success carries no \<^verbatim>\<open>'resolution'\<close>, no
  \<^verbatim>\<open>'fps'\<close> and no \<^verbatim>\<open>'filename'\<close>.
\<close>

theorem success_size_from_disk:
  "(download_video_max_quality E self url w = (d, w') \<and> d ''success'' = Some (PBool True)
      \<longrightarrow> (\<exists>fn v. d ''filename'' = Some (PStr fn)
             \<and> d ''size_mb'' = Some v \<and> nonneg_number v
             \<and> v = (if path_exists (filesys w') fn
                    then PFloat (round2 (of_nat (size_on_disk (filesys w') fn) / (1024 * 1024)))
                    else PInt 0))
          \<and> d ''files'' = None \<and> d ''count'' = None)
   \<and> (lawful_set_iter E2 \<and> download_images_max_quality E2 self2 url2 w2 = (d2, w2')
        \<and> d2 ''success'' = Some (PBool True)
      \<longrightarrow> (\<exists>v. d2 ''size_mb'' = Some v \<and> nonneg_number v
             \<and> v = PFloat (round2 (of_nat
                      (\<Sum>p\<in>set (glob_star (output_folder self2) (filesys w2'))
                              - set (glob_star (output_folder self2) (filesys w2)).
                          size_on_disk (filesys w2') p) / (1024 * 1024))))
          \<and> d2 ''resolution'' = None \<and> d2 ''fps'' = None \<and> d2 ''filename'' = None)"
proof (intro conjI impI)
  assume a: "download_video_max_quality E self url w = (d, w') \<and> d ''success'' = Some (PBool True)"
  then obtain fn where fn: "d ''filename'' = Some (PStr fn)"
    and sz: "d ''size_mb'' =
               Some (if path_exists (filesys w') fn
                     then PFloat (round2 (of_nat (size_on_disk (filesys w') fn) / (1024 * 1024)))
                     else PInt 0)"
    using video_adapter_success_payload [of E self url w d w'] by auto
  have "nonneg_number (if path_exists (filesys w') fn
                     then PFloat (round2 (of_nat (size_on_disk (filesys w') fn) / (1024 * 1024)))
                     else PInt 0)"
    using nonneg_number_mb by (simp add: nonneg_number_def)
  then show "\<exists>fn v. d ''filename'' = Some (PStr fn)
             \<and> d ''size_mb'' = Some v \<and> nonneg_number v
             \<and> v = (if path_exists (filesys w') fn
                    then PFloat (round2 (of_nat (size_on_disk (filesys w') fn) / (1024 * 1024)))
                    else PInt 0)"
    using fn sz by blast
  show "d ''files'' = None" "d ''count'' = None"
    using video_adapter_success_keys [of E self url w d w'] a by auto
next
  assume a: "lawful_set_iter E2 \<and> download_images_max_quality E2 self2 url2 w2 = (d2, w2')
        \<and> d2 ''success'' = Some (PBool True)"
  let ?N = "set (glob_star (output_folder self2) (filesys w2'))
              - set (glob_star (output_folder self2) (filesys w2))"
  have p: "d2 = [''success'' \<mapsto> PBool True,
              ''type'' \<mapsto> PStr ''images'',
              ''count'' \<mapsto> PInt (int (card ?N)),
              ''size_mb'' \<mapsto>
                 PFloat (round2 (of_nat (\<Sum>p\<in>?N. size_on_disk (filesys w2') p) / (1024 * 1024))),
              ''files'' \<mapsto> PList (map PStr (set_iter E2 ?N))]"
    using images_adapter_success_payload [of E2 self2 url2 w2 d2 w2' ?N] a by simp
  have "nonneg_number (PFloat (round2 (of_nat (\<Sum>p\<in>?N. size_on_disk (filesys w2') p) / (1024 * 1024))))"
    by (rule nonneg_number_mb)
  then show "\<exists>v. d2 ''size_mb'' = Some v \<and> nonneg_number v
             \<and> v = PFloat (round2 (of_nat (\<Sum>p\<in>?N. size_on_disk (filesys w2') p) / (1024 * 1024)))"
    using p by simp
  show "d2 ''resolution'' = None" "d2 ''fps'' = None" "d2 ''filename'' = None"
    using p by simp_all
qed

text \<open>
  The property on the post with a video and on the post with two images.
\<close>

theorem success_size_from_disk_witness:
  "demo_video_result ''size_mb'' = Some (PFloat 3) \<and> nonneg_number (PFloat 3)
   \<and> demo_video_result ''files'' = None
   \<and> demo_images_result ''size_mb'' = Some (PFloat (3 / 2)) \<and> nonneg_number (PFloat (3 / 2))
   \<and> demo_images_result ''resolution'' = None \<and> demo_images_result ''fps'' = None"
proof -
  have sv: "demo_video_result ''success'' = Some (PBool True)"
    by (simp add: demo_video_result_def)
  have si: "demo_images_result ''success'' = Some (PBool True)"
    by (simp add: demo_images_result_def)
  have t: "(\<exists>fn v. demo_video_result ''filename'' = Some (PStr fn)
             \<and> demo_video_result ''size_mb'' = Some v \<and> nonneg_number v
             \<and> v = (if path_exists (filesys demo_world_video) fn
                    then PFloat (round2 (of_nat (size_on_disk (filesys demo_world_video) fn)
                                         / (1024 * 1024)))
                    else PInt 0))
          \<and> demo_video_result ''files'' = None
          \<and> (\<exists>v. demo_images_result ''size_mb'' = Some v \<and> nonneg_number v)
          \<and> demo_images_result ''resolution'' = None \<and> demo_images_result ''fps'' = None"
    using success_size_from_disk [of "demo_env yt_video gd_silent" demo_downloader demo_url
        demo_world_announced
        demo_video_result demo_world_video "demo_env yt_no_video gd_two_images" demo_downloader
        demo_url demo_world_no_video demo_images_result demo_world_images]
      demo_video_run sv demo_lawful demo_images_run si
    by auto
  have "demo_video_result ''size_mb'' = Some (PFloat 3)"
       "demo_images_result ''size_mb'' = Some (PFloat (3 / 2))"
    by (simp_all add: demo_video_result_def demo_images_result_def)
  then show ?thesis
    using t by auto
qed

end
